theory Spec2Isabelle
  imports Main "HOL-Library.Sublist"
begin

section \<open>Status registry (constants/status-codes.ts)\<close>

text \<open>
  JavaScript numbers that carry status codes, retry counts and delays are modelled as
  unbounded integers (the floating-point range is not modelled).
\<close>

datatype category = INFORMATIONAL | SUCCESS | REDIRECTION | CLIENT_ERROR | SERVER_ERROR

text \<open>The table \<^verbatim>\<open>StatusCodeCategories\<close>, one list per key.\<close>

fun StatusCodeCategories :: "category \<Rightarrow> int list" where
  "StatusCodeCategories INFORMATIONAL = [100, 101, 102, 103]"
| "StatusCodeCategories SUCCESS = [200, 201, 202, 203, 204, 205, 206, 207, 208, 226]"
| "StatusCodeCategories REDIRECTION = [300, 301, 302, 303, 304, 305, 307, 308]"
| "StatusCodeCategories CLIENT_ERROR =
     [400, 401, 402, 403, 404, 405, 406, 407, 408, 409, 410, 411, 412, 413, 414, 415, 416,
      417, 418, 421, 422, 423, 424, 425, 426, 428, 429, 431, 451]"
| "StatusCodeCategories SERVER_ERROR = [500, 501, 502, 503, 504, 505, 506, 507, 508, 510, 511]"

text \<open>\<^verbatim>\<open>Object.entries(StatusCodeCategories)\<close>: the keys in declaration order.\<close>

definition category_entries :: "category list" where
  "category_entries = [INFORMATIONAL, SUCCESS, REDIRECTION, CLIENT_ERROR, SERVER_ERROR]"

definition isStatusCodeCategory :: "int \<Rightarrow> category \<Rightarrow> bool" where
  "isStatusCodeCategory statusCode cat = (statusCode \<in> set (StatusCodeCategories cat))"

text \<open>The \<^verbatim>\<open>for ... of\<close> loop: the first key whose list includes the code, else null.\<close>

fun first_category :: "category list \<Rightarrow> int \<Rightarrow> category option" where
  "first_category [] statusCode = None"
| "first_category (c # cs) statusCode =
     (if statusCode \<in> set (StatusCodeCategories c) then Some c
      else first_category cs statusCode)"

definition getStatusCodeCategory :: "int \<Rightarrow> category option" where
  "getStatusCodeCategory statusCode = first_category category_entries statusCode"

section \<open>Values, objects and the store\<close>

text \<open>
  JavaScript values as far as the library looks at them. Objects are held by reference:
  a \<open>JObj\<close> carries the address of an object in the store.
\<close>

type_synonym addr = nat

datatype jsval = JUndefined | JNull | JBool bool | JNum int | JStr string | JObj addr

text \<open>
  A plain object: its own properties. A key may be present with value \<open>JUndefined\<close>.
  (Properties inherited from \<^verbatim>\<open>Object.prototype\<close> are not modelled.)
\<close>

type_synonym obj = "string \<rightharpoonup> jsval"


text \<open>
  The store maps every address to the object it holds; \<open>next_addr\<close> is the next address
  an object literal \<^verbatim>\<open>{...}\<close> is allocated at.
\<close>

record store =
  objs :: "addr \<Rightarrow> obj"
  next_addr :: addr

definition alloc :: "obj \<Rightarrow> store \<Rightarrow> addr \<times> store" where
  "alloc ob h = (next_addr h, h\<lparr>objs := (objs h)(next_addr h := ob), next_addr := Suc (next_addr h)\<rparr>)"


section \<open>The base exception (exceptions/base-exception.ts)\<close>

datatype log_level = Error | Warn | Info | Debug

text \<open>
  \<^verbatim>\<open>ExceptionOptions\<close>: every field optional. The project compiles with
  \<^verbatim>\<open>exactOptionalPropertyTypes\<close>, so a field is either absent (\<open>None\<close>) or holds a value of
  its type. \<open>details\<close> and \<open>context\<close> are object references, \<open>timestamp\<close> is a Date in
  milliseconds, \<open>cause\<close> is a reference to the wrapped error.
\<close>

record ExceptionOptions =
  o_message :: "string option"
  o_statusCode :: "int option"
  o_code :: "string option"
  o_details :: "addr option"
  o_cause :: "addr option"
  o_timestamp :: "int option"
  o_requestId :: "string option"
  o_userId :: "string option"
  o_context :: "addr option"
  o_isOperational :: "bool option"
  o_retryable :: "bool option"
  o_logLevel :: "log_level option"

definition no_options :: ExceptionOptions where
  "no_options = \<lparr>o_message = None, o_statusCode = None, o_code = None, o_details = None,
     o_cause = None, o_timestamp = None, o_requestId = None, o_userId = None,
     o_context = None, o_isOperational = None, o_retryable = None, o_logLevel = None\<rparr>"

text \<open>An instance of \<^verbatim>\<open>BaseException\<close>; \<open>name\<close> is \<^verbatim>\<open>this.constructor.name\<close>.\<close>

record BaseException =
  name :: string
  message :: string
  statusCode :: int
  code :: string
  details :: addr
  timestamp :: int
  requestId :: "string option"
  userId :: "string option"
  context' :: addr
  isOperational :: bool
  retryable :: bool
  logLevel :: log_level
  cause :: "addr option"

text \<open>A destructuring default \<^verbatim>\<open>x = d\<close>.\<close>

definition dflt :: "'a option \<Rightarrow> 'a \<Rightarrow> 'a" where
  "dflt x d = (case x of None \<Rightarrow> d | Some v \<Rightarrow> v)"

text \<open>
  A default that is an object literal \<^verbatim>\<open>x = {}\<close>: the literal is evaluated, and so
  allocated, only when the field is absent.
\<close>

definition dflt_obj :: "addr option \<Rightarrow> obj \<Rightarrow> store \<Rightarrow> addr \<times> store" where
  "dflt_obj x ob h = (case x of None \<Rightarrow> alloc ob h | Some a \<Rightarrow> (a, h))"

text \<open>
  The constructor of \<^verbatim>\<open>BaseException\<close>. \<open>cname\<close> is the name of the class being
  instantiated and \<open>now\<close> the value of \<^verbatim>\<open>new Date()\<close>. The defaults are evaluated in
  the order of the destructuring pattern: \<open>details\<close> before \<open>context\<close>.
\<close>

definition BaseException_ctor ::
  "string \<Rightarrow> int \<Rightarrow> ExceptionOptions \<Rightarrow> store \<Rightarrow> BaseException \<times> store" where
  "BaseException_ctor cname now options h =
     (let (d, h1) = dflt_obj (o_details options) Map.empty h;
          (c, h2) = dflt_obj (o_context options) Map.empty h1
      in (\<lparr>name = cname,
           message = dflt (o_message options) ''An error occurred'',
           statusCode = dflt (o_statusCode options) 500,
           code = dflt (o_code options) ''INTERNAL_ERROR'',
           details = d,
           timestamp = dflt (o_timestamp options) now,
           requestId = o_requestId options,
           userId = o_userId options,
           context' = c,
           isOperational = dflt (o_isOperational options) True,
           retryable = dflt (o_retryable options) False,
           logLevel = dflt (o_logLevel options) Error,
           cause = o_cause options\<rparr>, h2))"

text \<open>The payload of \<^verbatim>\<open>toResponse()\<close>: the object under the key \<open>error\<close>.\<close>

record response =
  r_name :: string
  r_message :: string
  r_code :: string
  r_statusCode :: int
  r_details :: "addr option"
  r_requestId :: "string option"

text \<open>JavaScript truthiness (\<^verbatim>\<open>ToBoolean\<close>).\<close>

fun truthy :: "jsval \<Rightarrow> bool" where
  "truthy JUndefined = False"
| "truthy JNull = False"
| "truthy (JBool b) = b"
| "truthy (JNum n) = (n \<noteq> 0)"
| "truthy (JStr s) = (s \<noteq> [])"
| "truthy (JObj a) = True"

text \<open>
  \<^verbatim>\<open>toResponse\<close>; \<open>node_env\<close> is \<^verbatim>\<open>process.env.NODE_ENV\<close>. The test
  \<^verbatim>\<open>this.details\<close> is the truthiness of the reference held in the field, and
  \<^verbatim>\<open>this.requestId\<close> that of an optional string.
\<close>

definition toResponse :: "string option \<Rightarrow> BaseException \<Rightarrow> response" where
  "toResponse node_env this =
     \<lparr>r_name = name this, r_message = message this, r_code = code this,
      r_statusCode = statusCode this,
      r_details = (if node_env = Some ''development'' \<or> truthy (JObj (details this))
                   then Some (details this) else None),
      r_requestId = (case requestId this of None \<Rightarrow> None
                     | Some s \<Rightarrow> if truthy (JStr s) then Some s else None)\<rparr>"

definition isClientError :: "BaseException \<Rightarrow> bool" where
  "isClientError this = (statusCode this \<ge> 400 \<and> statusCode this < 500)"

definition isServerError :: "BaseException \<Rightarrow> bool" where
  "isServerError this = (statusCode this \<ge> 500 \<and> statusCode this < 600)"

definition isRetryable :: "BaseException \<Rightarrow> bool" where
  "isRetryable this = retryable this"







section \<open>The exception classes (http-, business- and infrastructure-exceptions.ts)\<close>

text \<open>Template-literal rendering \<^verbatim>\<open>${n}\<close> of an integer-valued number, in decimal.\<close>

fun show_nat :: "nat \<Rightarrow> string" where
  "show_nat n = (if n < 10 then [''0123456789'' ! n]
                 else show_nat (n div 10) @ [''0123456789'' ! (n mod 10)])"

declare show_nat.simps [simp del]

definition show_int :: "int \<Rightarrow> string" where
  "show_int i = (if i < 0 then ''-'' @ show_nat (nat (- i)) else show_nat (nat i))"

text \<open>
  One constructor per class, with the arguments its constructor takes before \<open>options\<close>.
  Optional arguments are \<open>option\<close>s; the \<open>details\<close> argument of
  \<^verbatim>\<open>BusinessRuleViolationException\<close> is an object reference.
\<close>

datatype variant =
    BadRequestException
  | UnauthorizedException
  | ForbiddenException
  | NotFoundException
  | MethodNotAllowedException
  | ConflictException
  | UnprocessableEntityException
  | TooManyRequestsException
  | InternalServerErrorException
  | ServiceUnavailableException
  | GatewayTimeoutException
  | ValidationException
  | AuthenticationException
  | AuthorizationException
  | ResourceNotFoundException string string
  | DuplicateResourceException string string string
  | InsufficientPermissionsException string
  | RateLimitExceededException int string
  | BusinessRuleViolationException string "addr option"
  | DataIntegrityException string
  | ConfigurationException string
  | FeatureNotAvailableException string
  | MaintenanceModeException "string option"
  | DatabaseConnectionException string
  | DatabaseQueryException string
  | DatabaseTransactionException string
  | DatabaseConstraintException string string
  | ExternalServiceException string string
  | ExternalServiceTimeoutException string int
  | ExternalServiceUnavailableException string
  | CacheException string "string option"
  | FileSystemException string string
  | NetworkException string string
  | ThirdPartyAPIException string string "int option"

fun class_name :: "variant \<Rightarrow> string" where
  "class_name BadRequestException = ''BadRequestException''"
| "class_name UnauthorizedException = ''UnauthorizedException''"
| "class_name ForbiddenException = ''ForbiddenException''"
| "class_name NotFoundException = ''NotFoundException''"
| "class_name MethodNotAllowedException = ''MethodNotAllowedException''"
| "class_name ConflictException = ''ConflictException''"
| "class_name UnprocessableEntityException = ''UnprocessableEntityException''"
| "class_name TooManyRequestsException = ''TooManyRequestsException''"
| "class_name InternalServerErrorException = ''InternalServerErrorException''"
| "class_name ServiceUnavailableException = ''ServiceUnavailableException''"
| "class_name GatewayTimeoutException = ''GatewayTimeoutException''"
| "class_name ValidationException = ''ValidationException''"
| "class_name AuthenticationException = ''AuthenticationException''"
| "class_name AuthorizationException = ''AuthorizationException''"
| "class_name (ResourceNotFoundException rt rid) = ''ResourceNotFoundException''"
| "class_name (DuplicateResourceException rt f v) = ''DuplicateResourceException''"
| "class_name (InsufficientPermissionsException p) = ''InsufficientPermissionsException''"
| "class_name (RateLimitExceededException l w) = ''RateLimitExceededException''"
| "class_name (BusinessRuleViolationException r d) = ''BusinessRuleViolationException''"
| "class_name (DataIntegrityException c) = ''DataIntegrityException''"
| "class_name (ConfigurationException k) = ''ConfigurationException''"
| "class_name (FeatureNotAvailableException f) = ''FeatureNotAvailableException''"
| "class_name (MaintenanceModeException d) = ''MaintenanceModeException''"
| "class_name (DatabaseConnectionException d) = ''DatabaseConnectionException''"
| "class_name (DatabaseQueryException q) = ''DatabaseQueryException''"
| "class_name (DatabaseTransactionException op) = ''DatabaseTransactionException''"
| "class_name (DatabaseConstraintException c t) = ''DatabaseConstraintException''"
| "class_name (ExternalServiceException sv e) = ''ExternalServiceException''"
| "class_name (ExternalServiceTimeoutException sv t) = ''ExternalServiceTimeoutException''"
| "class_name (ExternalServiceUnavailableException sv) = ''ExternalServiceUnavailableException''"
| "class_name (CacheException op k) = ''CacheException''"
| "class_name (FileSystemException op p) = ''FileSystemException''"
| "class_name (NetworkException op u) = ''NetworkException''"
| "class_name (ThirdPartyAPIException a e sc) = ''ThirdPartyAPIException''"

text \<open>An optional string or number as a property value: undefined when not passed.\<close>

definition opt_str :: "string option \<Rightarrow> jsval" where
  "opt_str x = (case x of None \<Rightarrow> JUndefined | Some s \<Rightarrow> JStr s)"

definition opt_num :: "int option \<Rightarrow> jsval" where
  "opt_num x = (case x of None \<Rightarrow> JUndefined | Some n \<Rightarrow> JNum n)"

text \<open>\<^verbatim>\<open>statusCode || d\<close> on an optional number: undefined and 0 are falsy.\<close>

definition num_or :: "int option \<Rightarrow> int \<Rightarrow> int" where
  "num_or x d = (case x of None \<Rightarrow> d | Some n \<Rightarrow> if truthy (JNum n) then n else d)"

text \<open>\<^verbatim>\<open>...details\<close> of an optional object: its properties, none when it is undefined.\<close>

definition spread_obj :: "addr option \<Rightarrow> store \<Rightarrow> obj" where
  "spread_obj x h = (case x of None \<Rightarrow> Map.empty | Some a \<Rightarrow> objs h a)"

text \<open>
  The properties each class writes before \<^verbatim>\<open>...options\<close> in the object it passes to
  \<^verbatim>\<open>super\<close>: message, statusCode, code, the \<open>details\<close> literal if it writes one,
  \<open>retryable\<close> and \<open>isOperational\<close> if it writes them.
\<close>

fun variant_literal ::
  "variant \<Rightarrow> store \<Rightarrow> string \<times> int \<times> string \<times> obj option \<times> bool option \<times> bool option" where
  "variant_literal BadRequestException h = (''Bad Request'', 400, ''BAD_REQUEST'', None, None, None)"
| "variant_literal UnauthorizedException h = (''Unauthorized'', 401, ''UNAUTHORIZED'', None, None, None)"
| "variant_literal ForbiddenException h = (''Forbidden'', 403, ''FORBIDDEN'', None, None, None)"
| "variant_literal NotFoundException h = (''Not Found'', 404, ''NOT_FOUND'', None, None, None)"
| "variant_literal MethodNotAllowedException h =
     (''Method Not Allowed'', 405, ''METHOD_NOT_ALLOWED'', None, None, None)"
| "variant_literal ConflictException h = (''Conflict'', 409, ''CONFLICT'', None, None, None)"
| "variant_literal UnprocessableEntityException h =
     (''Unprocessable Entity'', 422, ''UNPROCESSABLE_ENTITY'', None, None, None)"
| "variant_literal TooManyRequestsException h =
     (''Too Many Requests'', 429, ''TOO_MANY_REQUESTS'', None, Some True, None)"
| "variant_literal InternalServerErrorException h =
     (''Internal Server Error'', 500, ''INTERNAL_SERVER_ERROR'', None, None, Some False)"
| "variant_literal ServiceUnavailableException h =
     (''Service Unavailable'', 503, ''SERVICE_UNAVAILABLE'', None, Some True, Some False)"
| "variant_literal GatewayTimeoutException h =
     (''Gateway Timeout'', 504, ''GATEWAY_TIMEOUT'', None, Some True, Some False)"
| "variant_literal ValidationException h =
     (''Validation Error'', 422, ''VALIDATION_ERROR'', None, None, None)"
| "variant_literal AuthenticationException h =
     (''Authentication Failed'', 401, ''AUTHENTICATION_FAILED'', None, None, None)"
| "variant_literal AuthorizationException h =
     (''Authorization Failed'', 403, ''AUTHORIZATION_FAILED'', None, None, None)"
| "variant_literal (ResourceNotFoundException resourceType resourceId) h =
     (resourceType @ '' with id '' @ [CHR 0x27] @ resourceId @ [CHR 0x27] @ '' not found'',
      404, ''RESOURCE_NOT_FOUND'',
      Some [''resourceType'' \<mapsto> JStr resourceType, ''resourceId'' \<mapsto> JStr resourceId],
      None, None)"
| "variant_literal (DuplicateResourceException resourceType field val) h =
     (resourceType @ '' with '' @ field @ '' '' @ [CHR 0x27] @ val @ [CHR 0x27]
        @ '' already exists'',
      409, ''DUPLICATE_RESOURCE'',
      Some [''resourceType'' \<mapsto> JStr resourceType, ''field'' \<mapsto> JStr field,
            ''value'' \<mapsto> JStr val],
      None, None)"
| "variant_literal (InsufficientPermissionsException requiredPermission) h =
     (''Insufficient permissions. Required: '' @ requiredPermission,
      403, ''INSUFFICIENT_PERMISSIONS'',
      Some [''requiredPermission'' \<mapsto> JStr requiredPermission], None, None)"
| "variant_literal (RateLimitExceededException limit window) h =
     (''Rate limit exceeded. Limit: '' @ show_int limit @ '' requests per '' @ window,
      429, ''RATE_LIMIT_EXCEEDED'',
      Some [''limit'' \<mapsto> JNum limit, ''window'' \<mapsto> JStr window], Some True, None)"
| "variant_literal (BusinessRuleViolationException rule dets) h =
     (''Business rule violation: '' @ rule, 422, ''BUSINESS_RULE_VIOLATION'',
      Some ([''rule'' \<mapsto> JStr rule] ++ spread_obj dets h), None, None)"
| "variant_literal (DataIntegrityException constraint) h =
     (''Data integrity constraint violated: '' @ constraint, 409, ''DATA_INTEGRITY_VIOLATION'',
      Some [''constraint'' \<mapsto> JStr constraint], None, None)"
| "variant_literal (ConfigurationException configKey) h =
     (''Configuration error: '' @ configKey, 500, ''CONFIGURATION_ERROR'',
      Some [''configKey'' \<mapsto> JStr configKey], None, Some False)"
| "variant_literal (FeatureNotAvailableException feature) h =
     (''Feature '' @ [CHR 0x27] @ feature @ [CHR 0x27] @ '' is not available'',
      503, ''FEATURE_NOT_AVAILABLE'',
      Some [''feature'' \<mapsto> JStr feature], None, None)"
| "variant_literal (MaintenanceModeException estimatedDuration) h =
     (''Service is currently under maintenance'', 503, ''MAINTENANCE_MODE'',
      Some [''estimatedDuration'' \<mapsto> opt_str estimatedDuration], Some True, None)"
| "variant_literal (DatabaseConnectionException database) h =
     (''Database connection failed: '' @ database, 503, ''DATABASE_CONNECTION_ERROR'',
      Some [''database'' \<mapsto> JStr database], Some True, Some False)"
| "variant_literal (DatabaseQueryException query) h =
     (''Database query failed'', 500, ''DATABASE_QUERY_ERROR'',
      Some [''query'' \<mapsto> JStr query], None, Some False)"
| "variant_literal (DatabaseTransactionException operation) h =
     (''Database transaction failed: '' @ operation, 500, ''DATABASE_TRANSACTION_ERROR'',
      Some [''operation'' \<mapsto> JStr operation], None, Some False)"
| "variant_literal (DatabaseConstraintException constraint table) h =
     (''Database constraint violated: '' @ constraint, 409, ''DATABASE_CONSTRAINT_VIOLATION'',
      Some [''constraint'' \<mapsto> JStr constraint, ''table'' \<mapsto> JStr table], None, None)"
| "variant_literal (ExternalServiceException service endpoint) h =
     (''External service error: '' @ service, 503, ''EXTERNAL_SERVICE_ERROR'',
      Some [''service'' \<mapsto> JStr service, ''endpoint'' \<mapsto> JStr endpoint],
      Some True, Some False)"
| "variant_literal (ExternalServiceTimeoutException service timeout) h =
     (''External service timeout: '' @ service, 504, ''EXTERNAL_SERVICE_TIMEOUT'',
      Some [''service'' \<mapsto> JStr service, ''timeout'' \<mapsto> JNum timeout],
      Some True, Some False)"
| "variant_literal (ExternalServiceUnavailableException service) h =
     (''External service unavailable: '' @ service, 503, ''EXTERNAL_SERVICE_UNAVAILABLE'',
      Some [''service'' \<mapsto> JStr service], Some True, Some False)"
| "variant_literal (CacheException operation key) h =
     (''Cache operation failed: '' @ operation, 500, ''CACHE_ERROR'',
      Some [''operation'' \<mapsto> JStr operation, ''key'' \<mapsto> opt_str key],
      Some True, Some False)"
| "variant_literal (FileSystemException operation path) h =
     (''File system operation failed: '' @ operation, 500, ''FILE_SYSTEM_ERROR'',
      Some [''operation'' \<mapsto> JStr operation, ''path'' \<mapsto> JStr path], None, Some False)"
| "variant_literal (NetworkException operation url) h =
     (''Network operation failed: '' @ operation, 503, ''NETWORK_ERROR'',
      Some [''operation'' \<mapsto> JStr operation, ''url'' \<mapsto> JStr url],
      Some True, Some False)"
| "variant_literal (ThirdPartyAPIException api endpoint sc) h =
     (''Third-party API error: '' @ api, num_or sc 503, ''THIRD_PARTY_API_ERROR'',
      Some [''api'' \<mapsto> JStr api, ''endpoint'' \<mapsto> JStr endpoint,
            ''apiStatusCode'' \<mapsto> opt_num sc],
      Some True, Some False)"

text \<open>
  Evaluating that object literal: the \<open>details\<close> literal, when there is one, is allocated,
  whether or not \<open>options\<close> overrides it afterwards.
\<close>

definition variant_defaults :: "variant \<Rightarrow> store \<Rightarrow> ExceptionOptions \<times> store" where
  "variant_defaults v h =
     (case variant_literal v h of (msg, sc, cd, dets, retr, oper) \<Rightarrow>
        (case dets of
           None \<Rightarrow> (no_options\<lparr>o_message := Some msg, o_statusCode := Some sc, o_code := Some cd,
                      o_retryable := retr, o_isOperational := oper\<rparr>, h)
         | Some ob \<Rightarrow>
             (let (a, h') = alloc ob h
              in (no_options\<lparr>o_message := Some msg, o_statusCode := Some sc, o_code := Some cd,
                    o_details := Some a, o_retryable := retr, o_isOperational := oper\<rparr>, h'))))"

text \<open>Object spread \<^verbatim>\<open>{...a, ...b}\<close>: a property present in \<open>b\<close> wins.\<close>

definition orelse :: "'a option \<Rightarrow> 'a option \<Rightarrow> 'a option" where
  "orelse y x = (case y of None \<Rightarrow> x | Some v \<Rightarrow> Some v)"

definition spread :: "ExceptionOptions \<Rightarrow> ExceptionOptions \<Rightarrow> ExceptionOptions" where
  "spread a b =
     \<lparr>o_message = orelse (o_message b) (o_message a),
      o_statusCode = orelse (o_statusCode b) (o_statusCode a),
      o_code = orelse (o_code b) (o_code a),
      o_details = orelse (o_details b) (o_details a),
      o_cause = orelse (o_cause b) (o_cause a),
      o_timestamp = orelse (o_timestamp b) (o_timestamp a),
      o_requestId = orelse (o_requestId b) (o_requestId a),
      o_userId = orelse (o_userId b) (o_userId a),
      o_context = orelse (o_context b) (o_context a),
      o_isOperational = orelse (o_isOperational b) (o_isOperational a),
      o_retryable = orelse (o_retryable b) (o_retryable a),
      o_logLevel = orelse (o_logLevel b) (o_logLevel a)\<rparr>"

text \<open>\<^verbatim>\<open>new V(args, options)\<close>: the class's literal, \<open>options\<close> spread over it, then \<^verbatim>\<open>super\<close>.\<close>

definition construct :: "variant \<Rightarrow> int \<Rightarrow> ExceptionOptions \<Rightarrow> store \<Rightarrow> BaseException \<times> store" where
  "construct v now options h =
     (let (preset, h') = variant_defaults v h
      in BaseException_ctor (class_name v) now (spread preset options) h')"

text \<open>A store in which nothing has been allocated yet.\<close>

definition empty_store :: store where
  "empty_store = \<lparr>objs = (\<lambda>a. Map.empty), next_addr = 0\<rparr>"

section \<open>Error utilities (utils/error-utils.ts)\<close>

text \<open>
  A value that is thrown or passed as \<^verbatim>\<open>error\<close>: an instance of \<^verbatim>\<open>BaseException\<close>, or
  a foreign error object. Of a foreign object the utilities read the properties \<open>code\<close>
  (any value), \<open>message\<close> and \<open>stack\<close> (strings when present, as on every \<^verbatim>\<open>Error\<close>).
  A thrown primitive reads as a foreign object without these properties. The values
  \<^verbatim>\<open>null\<close> and \<^verbatim>\<open>undefined\<close>, on which a property read raises a TypeError, are not
  error values of this model.
\<close>

record ForeignError =
  err_code :: jsval
  err_message :: "string option"
  err_stack :: "string option"

datatype thrown = Modeled BaseException | Foreign ForeignError

fun isBaseException :: "thrown \<Rightarrow> bool" where
  "isBaseException (Modeled e) = True"
| "isBaseException (Foreign e) = False"

definition retryableErrors :: "string list" where
  "retryableErrors = [''ECONNRESET'', ''ECONNREFUSED'', ''ETIMEDOUT'', ''ENOTFOUND'',
     ''ENETUNREACH'', ''ECONNRESET'', ''EPIPE'', ''EAI_AGAIN'']"

text \<open>\<^verbatim>\<open>s.includes(c)\<close>: \<open>c\<close> occurs in \<open>s\<close> as a contiguous substring.\<close>

fun str_includes :: "string \<Rightarrow> string \<Rightarrow> bool" where
  "str_includes [] c = (c = [])"
| "str_includes (x # xs) c = (prefix c (x # xs) \<or> str_includes xs c)"

text \<open>\<^verbatim>\<open>s?.includes(c)\<close> as a condition: undefined, so falsy, when \<open>s\<close> is absent.\<close>

definition opt_includes :: "string option \<Rightarrow> string \<Rightarrow> bool" where
  "opt_includes s c = (case s of None \<Rightarrow> False | Some t \<Rightarrow> str_includes t c)"

fun isRetryableError :: "thrown \<Rightarrow> bool" where
  "isRetryableError (Modeled e) = isRetryable e"
| "isRetryableError (Foreign e) =
     list_ex (\<lambda>c. err_code e = JStr c \<or> opt_includes (err_message e) c
                  \<or> opt_includes (err_stack e) c) retryableErrors"

text \<open>The table \<^verbatim>\<open>logLevels\<close> of \<^verbatim>\<open>shouldLogError\<close>.\<close>

fun logLevels :: "log_level \<Rightarrow> nat" where
  "logLevels Error = 0"
| "logLevels Warn = 1"
| "logLevels Info = 2"
| "logLevels Debug = 3"

fun shouldLogError :: "thrown \<Rightarrow> log_level \<Rightarrow> bool" where
  "shouldLogError (Modeled e) lvl = (logLevels (logLevel e) \<le> logLevels lvl)"
| "shouldLogError (Foreign e) lvl = (lvl = Error)"





subsection \<open>Retry with exponential backoff\<close>

text \<open>
  The operation \<^verbatim>\<open>fn\<close> is a step on a state of its own: each call settles, resolved
  (\<open>Inr\<close>) or rejected (\<open>Inl\<close>), and leaves a new state. What the driver does is recorded
  as a list of events: each call of \<^verbatim>\<open>fn\<close> with its outcome, and each
  \<^verbatim>\<open>setTimeout\<close> it awaits with its delay.
\<close>

datatype 'a event = Attempt "thrown + 'a" | Sleep int

text \<open>
  The \<^verbatim>\<open>for\<close> loop from \<open>attempt\<close> on, and the \<^verbatim>\<open>throw lastError\<close> after it
  (\<open>None\<close> is the undefined \<^verbatim>\<open>lastError\<close> of a loop that never ran).
\<close>

function retry_loop ::
  "('s \<Rightarrow> (thrown + 'a) \<times> 's) \<Rightarrow> int \<Rightarrow> int \<Rightarrow> int \<Rightarrow> int \<Rightarrow> thrown option \<Rightarrow> 's
     \<Rightarrow> (thrown option + 'a) \<times> 'a event list \<times> 's" where
  "retry_loop fn maxRetries baseDelay maxDelay attempt lastError s =
     (if attempt \<le> maxRetries then
        (case fn s of
           (Inr v, s') \<Rightarrow> (Inr v, [Attempt (Inr v)], s')
         | (Inl error, s') \<Rightarrow>
             if attempt = maxRetries \<or> \<not> isRetryableError error
             then (Inl (Some error), [Attempt (Inl error)], s')
             else (let delay = min (baseDelay * 2 ^ nat attempt) maxDelay;
                       (r, evs, s'') = retry_loop fn maxRetries baseDelay maxDelay
                                         (attempt + 1) (Some error) s'
                   in (r, Attempt (Inl error) # Sleep delay # evs, s'')))
      else (Inl lastError, [], s))"
  by pat_completeness auto
termination
  by (relation "measure (\<lambda>(fn, maxRetries, baseDelay, maxDelay, attempt, lastError, s).
        nat (maxRetries + 1 - attempt))") auto

declare retry_loop.simps [simp del]

definition retryWithBackoff ::
  "('s \<Rightarrow> (thrown + 'a) \<times> 's) \<Rightarrow> int \<Rightarrow> int \<Rightarrow> int \<Rightarrow> 's
     \<Rightarrow> (thrown option + 'a) \<times> 'a event list \<times> 's" where
  "retryWithBackoff fn maxRetries baseDelay maxDelay s =
     retry_loop fn maxRetries baseDelay maxDelay 0 None s"

text \<open>Reading a trace: the outcomes of the calls, and the delays.\<close>

fun attempts :: "'a event list \<Rightarrow> (thrown + 'a) list" where
  "attempts [] = []"
| "attempts (Attempt r # evs) = r # attempts evs"
| "attempts (Sleep d # evs) = attempts evs"

fun delays :: "'a event list \<Rightarrow> int list" where
  "delays [] = []"
| "delays (Attempt r # evs) = delays evs"
| "delays (Sleep d # evs) = d # delays evs"

subsection \<open>Example values\<close>



text \<open>
  The error of the test suite, \<^verbatim>\<open>new Error('ECONNRESET')\<close> with \<^verbatim>\<open>code = 'ECONNRESET'\<close>;
  an operation that always rejects with it; and the operation that counts its calls and
  rejects with it on the first two (\<^verbatim>\<open>attempts++; if (attempts < 3) throw error\<close>).
\<close>

definition econnreset :: thrown where
  "econnreset = Foreign \<lparr>err_code = JStr ''ECONNRESET'', err_message = Some ''ECONNRESET'',
     err_stack = None\<rparr>"

definition always_fails :: "unit \<Rightarrow> (thrown + string) \<times> unit" where
  "always_fails s = (Inl econnreset, s)"

definition fails_twice :: "nat \<Rightarrow> (thrown + string) \<times> nat" where
  "fails_twice calls = (if Suc calls < 3 then (Inl econnreset, Suc calls)
                        else (Inr ''success'', Suc calls))"

section \<open>Theorems\<close>

text \<open>Unfolding a constructor call on concrete arguments.\<close>

lemmas ctor_defs = construct_def variant_defaults_def BaseException_ctor_def spread_def orelse_def
  dflt_def dflt_obj_def alloc_def no_options_def empty_store_def

subsection \<open>Status registry\<close>

text \<open>
  C10. For every status code and every category, \<open>isStatusCodeCategory\<close> holds exactly
  when \<open>getStatusCodeCategory\<close> returns that category; the five category lists are
  pairwise disjoint, so a code lies in at most one of them.
\<close>

theorem category_lookup_unique:
  "(isStatusCodeCategory sc cat \<longleftrightarrow> getStatusCodeCategory sc = Some cat)
   \<and> (\<forall>c1 c2. c1 \<noteq> c2 \<longrightarrow>
          set (StatusCodeCategories c1) \<inter> set (StatusCodeCategories c2) = {})"
proof
  show "isStatusCodeCategory sc cat \<longleftrightarrow> getStatusCodeCategory sc = Some cat"
    unfolding isStatusCodeCategory_def getStatusCodeCategory_def category_entries_def
    by (cases cat) auto
next
  show "\<forall>c1 c2. c1 \<noteq> c2 \<longrightarrow> set (StatusCodeCategories c1) \<inter> set (StatusCodeCategories c2) = {}"
  proof (intro allI impI)
    fix c1 c2 :: category
    assume "c1 \<noteq> c2"
    then show "set (StatusCodeCategories c1) \<inter> set (StatusCodeCategories c2) = {}"
      by (cases c1; cases c2) auto
  qed
qed

theorem category_lookup_unique_witness:
  "isStatusCodeCategory 404 CLIENT_ERROR \<and> getStatusCodeCategory 404 = Some CLIENT_ERROR
   \<and> CLIENT_ERROR \<noteq> SERVER_ERROR
   \<and> set (StatusCodeCategories CLIENT_ERROR) \<inter> set (StatusCodeCategories SERVER_ERROR) = {}"
  using category_lookup_unique [of 404 CLIENT_ERROR]
  by (simp add: isStatusCodeCategory_def)


subsection \<open>Client and server errors\<close>

text \<open>
  C4, as amended. \<open>isClientError\<close> holds exactly for a status code in [400,500) and
  \<open>isServerError\<close> exactly for one in [500,600); the two never hold together, and one of
  them holds for every status code in [400,600). (Below 400 neither holds.)
\<close>

theorem status_class_predicates:
  "(isClientError r \<longleftrightarrow> 400 \<le> statusCode r \<and> statusCode r < 500)
   \<and> (isServerError r \<longleftrightarrow> 500 \<le> statusCode r \<and> statusCode r < 600)
   \<and> \<not> (isClientError r \<and> isServerError r)
   \<and> (400 \<le> statusCode r \<and> statusCode r < 600 \<longrightarrow> isClientError r \<or> isServerError r)"
  by (auto simp: isClientError_def isServerError_def)

theorem status_class_predicates_witness:
  "400 \<le> statusCode (fst (construct NotFoundException 0 no_options empty_store))
   \<and> statusCode (fst (construct NotFoundException 0 no_options empty_store)) < 600
   \<and> isClientError (fst (construct NotFoundException 0 no_options empty_store))
   \<and> \<not> isServerError (fst (construct NotFoundException 0 no_options empty_store))"
  using status_class_predicates [of "fst (construct NotFoundException 0 no_options empty_store)"]
  by (simp add: ctor_defs)

text \<open>
  \<^verbatim>\<open>new BadRequestException({statusCode: 200})\<close> has a status code in [100,600) and is
  neither a client nor a server error.
\<close>

theorem status_class_exhaustive_counterexample:
  "100 \<le> statusCode (fst (construct BadRequestException 0 (no_options\<lparr>o_statusCode := Some 200\<rparr>) empty_store))
   \<and> statusCode (fst (construct BadRequestException 0 (no_options\<lparr>o_statusCode := Some 200\<rparr>) empty_store)) < 600
   \<and> \<not> isClientError (fst (construct BadRequestException 0 (no_options\<lparr>o_statusCode := Some 200\<rparr>) empty_store))
   \<and> \<not> isServerError (fst (construct BadRequestException 0 (no_options\<lparr>o_statusCode := Some 200\<rparr>) empty_store))"
  by (simp add: ctor_defs isClientError_def isServerError_def)

subsection \<open>Logging decision\<close>

text \<open>
  C8. For a modeled exception \<open>shouldLogError\<close> holds exactly when the rank of its log
  level (error 0, warn 1, info 2, debug 3) is at most the rank of the threshold; for a
  foreign error it holds exactly when the threshold is error.
\<close>

theorem shouldLogError_threshold:
  "shouldLogError (Modeled e) threshold = (logLevels (logLevel e) \<le> logLevels threshold)
   \<and> shouldLogError (Foreign f) threshold = (threshold = Error)
   \<and> logLevels Error = 0 \<and> logLevels Warn = 1 \<and> logLevels Info = 2 \<and> logLevels Debug = 3"
  by simp

theorem shouldLogError_threshold_witness:
  "shouldLogError (Modeled (fst (construct NotFoundException 0 (no_options\<lparr>o_logLevel := Some Warn\<rparr>) empty_store))) Info
   \<and> \<not> shouldLogError (Modeled (fst (construct NotFoundException 0 (no_options\<lparr>o_logLevel := Some Warn\<rparr>) empty_store))) Error
   \<and> \<not> shouldLogError (Foreign \<lparr>err_code = JUndefined, err_message = Some ''boom'', err_stack = None\<rparr>) Warn"
  using shouldLogError_threshold [of "fst (construct NotFoundException 0 (no_options\<lparr>o_logLevel := Some Warn\<rparr>) empty_store)" Info]
    shouldLogError_threshold [of "fst (construct NotFoundException 0 (no_options\<lparr>o_logLevel := Some Warn\<rparr>) empty_store)" Error]
    shouldLogError_threshold [of _ Warn "\<lparr>err_code = JUndefined, err_message = Some ''boom'', err_stack = None\<rparr>"]
  by (simp add: ctor_defs)


subsection \<open>Required fields\<close>





subsection \<open>Retryable errors\<close>







subsection \<open>Response payload\<close>

text \<open>
  C3 fails on the code. With \<^verbatim>\<open>NODE_ENV\<close> set to production,
  \<^verbatim>\<open>new BadRequestException().toResponse()\<close> carries the \<open>details\<close> field although the
  details object (at address 0) is empty: the condition tests the reference, which is
  always truthy.
\<close>

theorem toResponse_empty_details_in_production:
  "r_details (toResponse (Some ''production'')
       (fst (construct BadRequestException 0 no_options empty_store))) = Some 0
   \<and> objs (snd (construct BadRequestException 0 no_options empty_store)) 0 = Map.empty"
  by (simp add: ctor_defs toResponse_def)

subsection \<open>Enrichment\<close>






subsection \<open>Construction\<close>











subsection \<open>Retry with backoff\<close>

text \<open>The four ways one round of the loop continues, and induction along a run.\<close>

lemma retry_loop_ok:
  "a \<le> M \<Longrightarrow> fn s = (Inr v, s') \<Longrightarrow>
     retry_loop fn M b D a lst s = (Inr v, [Attempt (Inr v)], s')"
  by (subst retry_loop.simps) simp

lemma retry_loop_stop:
  "a \<le> M \<Longrightarrow> fn s = (Inl e, s') \<Longrightarrow> a = M \<or> \<not> isRetryableError e \<Longrightarrow>
     retry_loop fn M b D a lst s = (Inl (Some e), [Attempt (Inl e)], s')"
  by (subst retry_loop.simps) auto

lemma retry_loop_retry:
  "a < M \<Longrightarrow> fn s = (Inl e, s') \<Longrightarrow> isRetryableError e \<Longrightarrow>
     retry_loop fn M b D (a + 1) (Some e) s' = (r, evs, s'') \<Longrightarrow>
     retry_loop fn M b D a lst s
       = (r, Attempt (Inl e) # Sleep (min (b * 2 ^ nat a) D) # evs, s'')"
  by (subst retry_loop.simps) (simp add: Let_def)

lemma retry_loop_skip:
  "\<not> a \<le> M \<Longrightarrow> retry_loop fn M b D a lst s = (Inl lst, [], s)"
  by (subst retry_loop.simps) simp

lemma retry_loop_induct [consumes 2, case_names ok stop retry]:
  assumes le: "a \<le> M"
    and run: "retry_loop fn M b D a lst s = (r, evs, t)"
    and ok: "\<And>a s v s'. a \<le> M \<Longrightarrow> fn s = (Inr v, s') \<Longrightarrow> P a s (Inr v) [Attempt (Inr v)] s'"
    and stop: "\<And>a s e s'. a \<le> M \<Longrightarrow> fn s = (Inl e, s') \<Longrightarrow> a = M \<or> \<not> isRetryableError e \<Longrightarrow>
                 P a s (Inl (Some e)) [Attempt (Inl e)] s'"
    and retry: "\<And>a s e s' r evs s''. a < M \<Longrightarrow> fn s = (Inl e, s') \<Longrightarrow> isRetryableError e \<Longrightarrow>
                 retry_loop fn M b D (a + 1) (Some e) s' = (r, evs, s'') \<Longrightarrow>
                 P (a + 1) s' r evs s'' \<Longrightarrow>
                 P a s r (Attempt (Inl e) # Sleep (min (b * 2 ^ nat a) D) # evs) s''"
  shows "P a s r evs t"
  using le run
proof (induction "nat (M + 1 - a)" arbitrary: a lst s r evs t)
  case 0
  then show ?case by simp
next
  case (Suc n)
  obtain x s' where fs: "fn s = (x, s')" by (cases "fn s")
  show ?case
  proof (cases x)
    case (Inr v)
    with fs Suc.prems retry_loop_ok [of a M fn s v s' b D lst] ok [of a s v s']
    show ?thesis by simp
  next
    case (Inl e)
    show ?thesis
    proof (cases "a = M \<or> \<not> isRetryableError e")
      case True
      with Inl fs Suc.prems retry_loop_stop [of a M fn s e s' b D lst] stop [of a s e s']
      show ?thesis by simp
    next
      case False
      then have lt: "a < M" and re: "isRetryableError e" using Suc.prems(1) by auto
      obtain r' evs' s'' where rec: "retry_loop fn M b D (a + 1) (Some e) s' = (r', evs', s'')"
        by (cases "retry_loop fn M b D (a + 1) (Some e) s'")
      have n: "n = nat (M + 1 - (a + 1))" using Suc.hyps(2) by simp
      have le': "a + 1 \<le> M" using lt by simp
      have ih: "P (a + 1) s' r' evs' s''"
        by (rule Suc.hyps(1) [OF n le' rec])
      from fs Inl have fse: "fn s = (Inl e, s')" by simp
      from retry_loop_retry [OF lt fse re rec, of lst] Suc.prems(2)
      have "r = r'" and "evs = Attempt (Inl e) # Sleep (min (b * 2 ^ nat a) D) # evs'" and "t = s''"
        by simp_all
      with retry [OF lt fse re rec ih] show ?thesis by simp
    qed
  qed
qed



lemma retry_last_event:
  assumes "a \<le> M" and "retry_loop fn M b D a lst s = (r, evs, t)"
  shows "evs \<noteq> [] \<and> (\<exists>x. last evs = Attempt x
            \<and> r = (case x of Inl e \<Rightarrow> Inl (Some e) | Inr v \<Rightarrow> Inr v))"
  using assms by (induction rule: retry_loop_induct) simp_all


lemma retry_sleeps_after:
  assumes "a \<le> M" and "retry_loop fn M b D a lst s = (r, evs, t)" and "0 \<le> a"
  shows "\<forall>i e. i < length evs \<and> evs ! i = Attempt (Inl e) \<and> isRetryableError e
           \<and> a + int (length (attempts (take i evs))) < M
           \<longrightarrow> Suc (Suc i) < length evs
               \<and> evs ! Suc i = Sleep (min (b * 2 ^ (nat a + length (attempts (take i evs)))) D)
               \<and> (\<exists>x. evs ! Suc (Suc i) = Attempt x)"
  using assms
proof (induction rule: retry_loop_induct)
  case (ok a s v s')
  then show ?case by (auto simp: nth_Cons')
next
  case (stop a s e s')
  then show ?case by (auto simp: nth_Cons')
next
  case (retry a s e s' r evs s'')
  have ne: "evs \<noteq> []" and hd: "\<exists>x. evs ! 0 = Attempt x"
  proof -
    have le: "a + 1 \<le> M" using retry.hyps(1) by simp
    show "evs \<noteq> []" using retry_last_event [OF le retry.hyps(4)] by simp
    show "\<exists>x. evs ! 0 = Attempt x"
      using le retry.hyps(4)
      by (induction rule: retry_loop_induct) simp_all
  qed
  have na: "nat (a + 1) = Suc (nat a)" using retry.prems by simp
  show ?case
  proof (intro allI impI)
    fix i e'
    let ?evs = "Attempt (Inl e) # Sleep (min (b * 2 ^ nat a) D) # evs"
    assume h: "i < length ?evs \<and> ?evs ! i = Attempt (Inl e') \<and> isRetryableError e'
        \<and> a + int (length (attempts (take i ?evs))) < M"
    show "Suc (Suc i) < length ?evs
        \<and> ?evs ! Suc i = Sleep (min (b * 2 ^ (nat a + length (attempts (take i ?evs)))) D)
        \<and> (\<exists>x. ?evs ! Suc (Suc i) = Attempt x)"
    proof (cases i)
      case 0
      with ne hd show ?thesis by (cases evs) auto
    next
      case (Suc j)
      show ?thesis
      proof (cases j)
        case 0
        with Suc h show ?thesis by simp
      next
        case (Suc k)
        with \<open>i = Suc j\<close> h have "k < length evs \<and> evs ! k = Attempt (Inl e') \<and> isRetryableError e'
           \<and> a + 1 + int (length (attempts (take k evs))) < M"
          by auto
        moreover have "0 \<le> a + 1" using retry.prems by simp
        ultimately have "Suc (Suc k) < length evs
            \<and> evs ! Suc k = Sleep (min (b * 2 ^ (nat (a + 1) + length (attempts (take k evs)))) D)
            \<and> (\<exists>x. evs ! Suc (Suc k) = Attempt x)"
          using retry.IH by blast
        with Suc \<open>i = Suc j\<close> na show ?thesis by simp
      qed
    qed
  qed
qed

lemma retry_delays:
  assumes "a \<le> M" and "retry_loop fn M b D a lst s = (r, evs, t)" and "0 \<le> a"
  shows "delays evs = map (\<lambda>j. min (b * 2 ^ j) D) [nat a ..< nat a + length (delays evs)]"
  using assms
proof (induction rule: retry_loop_induct)
  case (ok a s v s')
  then show ?case by simp
next
  case (stop a s e s')
  then show ?case by simp
next
  case (retry a s e s' r evs s'')
  let ?n = "length (delays evs)"
  let ?f = "\<lambda>j. min (b * 2 ^ j) D"
  have na: "nat (a + 1) = Suc (nat a)" using retry.prems by simp
  have "0 \<le> a + 1" using retry.prems by simp
  from retry.IH [OF this]
  have ih: "delays evs = map ?f [Suc (nat a) ..< Suc (nat a) + ?n]"
    unfolding na .
  have eq1: "nat a + Suc ?n = Suc (nat a) + ?n" by simp
  have "nat a < Suc (nat a) + ?n" by simp
  from upt_conv_Cons [OF this]
  have u: "[nat a ..< nat a + Suc ?n] = nat a # [Suc (nat a) ..< Suc (nat a) + ?n]"
    unfolding eq1 .
  have len: "length (delays (Attempt (Inl e) # Sleep (min (b * 2 ^ nat a) D) # evs)) = Suc ?n"
    by simp
  have d: "delays (Attempt (Inl e) # Sleep (min (b * 2 ^ nat a) D) # evs)
      = min (b * 2 ^ nat a) D # delays evs"
    by simp
  have "map ?f [nat a ..< nat a + Suc ?n] = ?f (nat a) # map ?f [Suc (nat a) ..< Suc (nat a) + ?n]"
    unfolding u by (rule list.map(2))
  also have "\<dots> = min (b * 2 ^ nat a) D # delays evs"
    using ih by (simp only:)
  finally have "map ?f [nat a ..< nat a + Suc ?n] = min (b * 2 ^ nat a) D # delays evs" .
  then show ?case by simp
qed


lemma capped_doubling:
  "min (10 * 2 ^ j) (100::int) = (if j < 4 then 10 * 2 ^ j else 100)"
proof (cases "j < 4")
  case True
  then have "j = 0 \<or> j = 1 \<or> j = 2 \<or> j = 3" by arith
  then show ?thesis by auto
next
  case False
  then have "(2::int) ^ 4 \<le> 2 ^ j" by (intro power_increasing) simp_all
  then have "(100::int) \<le> 10 * 2 ^ j" by simp
  with False show ?thesis by simp
qed


lemma fails_twice_run:
  "retryWithBackoff fails_twice 3 10 100 0
     = (Inr ''success'',
        [Attempt (Inl econnreset), Sleep 10, Attempt (Inl econnreset), Sleep 20,
         Attempt (Inr ''success'')], 3)"
  by code_simp

lemma always_fails_run5:
  "retryWithBackoff always_fails 5 10 100 ()
     = (Inl (Some econnreset),
        [Attempt (Inl econnreset), Sleep 10, Attempt (Inl econnreset), Sleep 20,
         Attempt (Inl econnreset), Sleep 40, Attempt (Inl econnreset), Sleep 80,
         Attempt (Inl econnreset), Sleep 100, Attempt (Inl econnreset)], ())"
  by code_simp

lemma econnreset_retryable: "isRetryableError econnreset"
  by code_simp



text \<open>
  C2. After a failing call with index \<open>i\<close> whose error is retryable and with
  \<open>i < maxRetries\<close>, the next event is a delay of \<open>min (baseDelay * 2 ^ i) maxDelay\<close>,
  followed by the next call. The delays of a run are these values for \<open>i = 0, 1, 2, \<dots>\<close>
  in order; none exceeds \<open>maxDelay\<close>; with base 10 and cap 100 they are 10, 20, 40, 80
  and then 100.
\<close>

theorem retryWithBackoff_delays:
  assumes "retryWithBackoff fn maxRetries baseDelay maxDelay s = (r, evs, t)"
  shows "(\<forall>i e. i < length evs \<and> evs ! i = Attempt (Inl e) \<and> isRetryableError e
            \<and> int (length (attempts (take i evs))) < maxRetries
          \<longrightarrow> Suc (Suc i) < length evs
              \<and> evs ! Suc i
                  = Sleep (min (baseDelay * 2 ^ length (attempts (take i evs))) maxDelay)
              \<and> (\<exists>x. evs ! Suc (Suc i) = Attempt x))
    \<and> delays evs = map (\<lambda>j. min (baseDelay * 2 ^ j) maxDelay) [0 ..< length (delays evs)]
    \<and> (\<forall>d \<in> set (delays evs). d \<le> maxDelay)
    \<and> (baseDelay = 10 \<and> maxDelay = 100
          \<longrightarrow> (\<forall>j < length (delays evs). delays evs ! j = (if j < 4 then 10 * 2 ^ j else 100)))"
proof -
  from assms have run: "retry_loop fn maxRetries baseDelay maxDelay 0 None s = (r, evs, t)"
    by (simp add: retryWithBackoff_def)
  have 1: "\<forall>i e. i < length evs \<and> evs ! i = Attempt (Inl e) \<and> isRetryableError e
            \<and> int (length (attempts (take i evs))) < maxRetries
          \<longrightarrow> Suc (Suc i) < length evs
              \<and> evs ! Suc i
                  = Sleep (min (baseDelay * 2 ^ length (attempts (take i evs))) maxDelay)
              \<and> (\<exists>x. evs ! Suc (Suc i) = Attempt x)"
  proof (cases "0 \<le> maxRetries")
    case True
    have z: "(0::int) \<le> 0" by simp
    have n: "nat 0 = 0" by simp
    from retry_sleeps_after [OF True run z] show ?thesis
      by (simp only: add.left_neutral n)
  next
    case False
    with run retry_loop_skip [of 0 maxRetries fn baseDelay maxDelay None s]
    have "evs = []" by simp
    then show ?thesis by simp
  qed
  have 2: "delays evs = map (\<lambda>j. min (baseDelay * 2 ^ j) maxDelay) [0 ..< length (delays evs)]"
  proof (cases "0 \<le> maxRetries")
    case True
    have z: "(0::int) \<le> 0" by simp
    have n: "nat 0 = 0" by simp
    from retry_delays [OF True run z] show ?thesis
      by (simp only: add.left_neutral n)
  next
    case False
    with run retry_loop_skip [of 0 maxRetries fn baseDelay maxDelay None s]
    have "evs = []" by simp
    then show ?thesis by simp
  qed
  have 3: "\<forall>d \<in> set (delays evs). d \<le> maxDelay"
  proof
    fix d assume "d \<in> set (delays evs)"
    then have "d \<in> set (map (\<lambda>j. min (baseDelay * 2 ^ j) maxDelay) [0 ..< length (delays evs)])"
      using 2 by simp
    then show "d \<le> maxDelay" by auto
  qed
  have 4: "baseDelay = 10 \<and> maxDelay = 100
          \<longrightarrow> (\<forall>j < length (delays evs). delays evs ! j = (if j < 4 then 10 * 2 ^ j else 100))"
  proof (intro impI allI)
    fix j
    assume bd: "baseDelay = 10 \<and> maxDelay = 100" and j: "j < length (delays evs)"
    have "delays evs ! j
        = map (\<lambda>j. min (baseDelay * 2 ^ j) maxDelay) [0 ..< length (delays evs)] ! j"
      using 2 by simp
    also have "\<dots> = min (baseDelay * 2 ^ j) maxDelay"
      using j by simp
    also have "\<dots> = (if j < 4 then 10 * 2 ^ j else 100)"
      using bd capped_doubling [of j] by simp
    finally show "delays evs ! j = (if j < 4 then 10 * 2 ^ j else 100)" .
  qed
  from 1 2 3 4 show ?thesis by (intro conjI)
qed

theorem retryWithBackoff_delays_witness:
  "retryWithBackoff always_fails 5 10 100 ()
     = (Inl (Some econnreset),
        [Attempt (Inl econnreset), Sleep 10, Attempt (Inl econnreset), Sleep 20,
         Attempt (Inl econnreset), Sleep 40, Attempt (Inl econnreset), Sleep 80,
         Attempt (Inl econnreset), Sleep 100, Attempt (Inl econnreset)], ())
   \<and> isRetryableError econnreset
   \<and> delays [Attempt (Inl econnreset) :: string event, Sleep 10, Attempt (Inl econnreset), Sleep 20,
         Attempt (Inl econnreset), Sleep 40, Attempt (Inl econnreset), Sleep 80,
         Attempt (Inl econnreset), Sleep 100, Attempt (Inl econnreset)] = [10, 20, 40, 80, 100]
   \<and> retryWithBackoff fails_twice 3 10 100 0
       = (Inr ''success'',
          [Attempt (Inl econnreset), Sleep 10, Attempt (Inl econnreset), Sleep 20,
           Attempt (Inr ''success'')], 3)
   \<and> delays [Attempt (Inl econnreset), Sleep 10, Attempt (Inl econnreset), Sleep 20,
           Attempt (Inr ''success'')] = [10, 20]"
  using retryWithBackoff_delays [OF always_fails_run5] always_fails_run5 econnreset_retryable
    retryWithBackoff_delays [OF fails_twice_run] fails_twice_run
  by simp

end
